theory Spec2Isabelle
  imports Complex_Main
begin

section \<open>Exceptions\<close>

text \<open>
  The exceptions that the notebooks' functions can raise. A function that can raise
  returns a value of \<open>error + 'a\<close>, with \<open>Inl\<close> for the exception.
\<close>

datatype error =
    JSONDecodeError
  | KeyError string
  | TypeError
  | AttributeError
  | IndexError
  | ValueError
  | HTTPError int
  | OverflowError
  | GEOSException

section \<open>Boundary geometries\<close>

text \<open>
  The notebooks \<^verbatim>\<open>OpenWeatherMap.ipynb\<close> and \<^verbatim>\<open>OpenStreetMap.ipynb\<close> read
  administrative boundaries as shapely geometries. A coordinate is a pair \<open>(x, y)\<close>, that
  is (longitude, latitude). The functions below never compute with a coordinate value, they
  pass it on or compare it, so the number type is a parameter \<open>'c\<close>.
\<close>

type_synonym 'c coord = "'c \<times> 'c"

record 'c polygon =
  exterior :: "'c coord list"
  interiors :: "'c coord list list"

datatype 'c geometry =
    Point "'c coord"
  | LineString "'c coord list"
  | LinearRing "'c coord list"
  | Polygon "'c polygon"
  | MultiPoint "'c coord list"
  | MultiLineString "'c coord list list"
  | MultiPolygon "'c polygon list"
  | GeometryCollection "'c geometry list"

text \<open>The attribute \<^verbatim>\<open>geometry.geom_type\<close>: the name of the geometry's class.\<close>

fun geom_type :: "'c geometry \<Rightarrow> string" where
  "geom_type (Point _) = ''Point''"
| "geom_type (LineString _) = ''LineString''"
| "geom_type (LinearRing _) = ''LinearRing''"
| "geom_type (Polygon _) = ''Polygon''"
| "geom_type (MultiPoint _) = ''MultiPoint''"
| "geom_type (MultiLineString _) = ''MultiLineString''"
| "geom_type (MultiPolygon _) = ''MultiPolygon''"
| "geom_type (GeometryCollection _) = ''GeometryCollection''"

text \<open>The attribute \<^verbatim>\<open>geometry.geoms\<close> of a MultiPolygon: its constituent polygons.\<close>

fun geoms :: "'c geometry \<Rightarrow> 'c polygon list" where
  "geoms (MultiPolygon ps) = ps"
| "geoms _ = []"

text \<open>The exterior ring of a Polygon (\<^verbatim>\<open>geometry.exterior.coords\<close>).\<close>

fun exterior_coords :: "'c geometry \<Rightarrow> 'c coord list" where
  "exterior_coords (Polygon p) = exterior p"
| "exterior_coords _ = []"

subsection \<open>Flattening a geometry into nested lists\<close>

text \<open>
  Python's lists nest to any depth; the result of \<^verbatim>\<open>convert_coordinates_format\<close> is a
  list whose entries are either a ring (\<^verbatim>\<open>list(polygon.exterior.coords)\<close>, a list of
  coordinate tuples) or again a list of such entries.
\<close>

datatype 'c nested = Ring "'c coord list" | Nested "'c nested list"

text \<open>
  \<^verbatim>\<open>
  def convert_coordinates_format(geometry):
      if geometry.geom_type == 'MultiPolygon':
          return [
              [list(polygon.exterior.coords) for polygon in geometry.geoms]
          ]
      elif geometry.geom_type == 'Polygon':
          return [list(geometry.exterior.coords)]
      else:
          return []
  \<close>
  The value returned is the outer list.
\<close>

definition convert_coordinates_format :: "'c geometry \<Rightarrow> 'c nested list" where
  "convert_coordinates_format geometry =
     (if geom_type geometry = ''MultiPolygon'' then
        [Nested (map (\<lambda>polygon. Ring (exterior polygon)) (geoms geometry))]
      else if geom_type geometry = ''Polygon'' then
        [Ring (exterior_coords geometry)]
      else [])"

subsection \<open>Coordinates and empty geometries\<close>

text \<open>
  The coordinates that span a geometry's envelope; those of a polygon are the
  coordinates of its exterior ring. A geometry that has none is empty
  (\<^verbatim>\<open>geometry.is_empty\<close>), such as \<^verbatim>\<open>Polygon()\<close>.
\<close>

fun envelope_coords :: "'c geometry \<Rightarrow> 'c coord list" where
  "envelope_coords (Point p) = [p]"
| "envelope_coords (LineString cs) = cs"
| "envelope_coords (LinearRing cs) = cs"
| "envelope_coords (Polygon p) = exterior p"
| "envelope_coords (MultiPoint cs) = cs"
| "envelope_coords (MultiLineString ls) = concat ls"
| "envelope_coords (MultiPolygon ps) = concat (map exterior ps)"
| "envelope_coords (GeometryCollection gs) = concat (map envelope_coords gs)"

definition is_empty :: "'c geometry \<Rightarrow> bool" where
  "is_empty geometry = (envelope_coords geometry = [])"

subsection \<open>Centroids of the valid geometries\<close>

text \<open>
  The validity check and the centroid are shapely's. For an empty geometry they are
  fixed: shapely counts it as valid, and its centroid is the empty point, which has no
  coordinate. For the other geometries they are parameters: \<open>valid\<close> decides a
  geometry and \<open>centre\<close> gives its centroid \<open>(x, y)\<close>.
\<close>

definition is_valid :: "('c geometry \<Rightarrow> bool) \<Rightarrow> 'c geometry \<Rightarrow> bool" where
  "is_valid valid geometry = (is_empty geometry \<or> valid geometry)"

definition centroid ::
  "('c geometry \<Rightarrow> 'c coord) \<Rightarrow> 'c geometry \<Rightarrow> 'c coord option" where
  "centroid centre geometry = (if is_empty geometry then None else Some (centre geometry))"

text \<open>
  \<^verbatim>\<open>
  def get_centroid_coordinates(gdf):
      centroids = []
      for _, row in gdf.iterrows():
          geometry = row['geometry']
          if geometry.is_valid:
              centroid = geometry.centroid
              centroids.append((centroid.y, centroid.x))  # (lat, lon)
      return centroids
  \<close>
  The function reads one column of the table, \<^verbatim>\<open>geometry\<close>, so the table is the list of
  its rows' geometries. The local list \<^verbatim>\<open>centroids\<close> is the accumulator of the loop.
  Reading \<^verbatim>\<open>centroid.y\<close> of the empty point raises (GEOSException: getY called on
  empty Point), and the exception leaves the function.
\<close>

fun centroid_loop ::
  "('c geometry \<Rightarrow> bool) \<Rightarrow> ('c geometry \<Rightarrow> 'c coord) \<Rightarrow> 'c geometry list \<Rightarrow>
   'c coord list \<Rightarrow> error + 'c coord list" where
  "centroid_loop valid centre [] centroids = Inr centroids"
| "centroid_loop valid centre (geometry # rows) centroids =
     (if is_valid valid geometry then
        (case centroid centre geometry of
           None \<Rightarrow> Inl GEOSException
         | Some c \<Rightarrow> centroid_loop valid centre rows (centroids @ [(snd c, fst c)]))
      else centroid_loop valid centre rows centroids)"

definition get_centroid_coordinates ::
  "('c geometry \<Rightarrow> bool) \<Rightarrow> ('c geometry \<Rightarrow> 'c coord) \<Rightarrow> 'c geometry list \<Rightarrow>
   error + 'c coord list" where
  "get_centroid_coordinates valid centre gdf = centroid_loop valid centre gdf []"

subsection \<open>Bounding boxes\<close>

text \<open>
  The attribute \<^verbatim>\<open>geometry.bounds\<close> is shapely's: the envelope
  \<open>(minx, miny, maxx, maxy)\<close> of the geometry's coordinates, four Python floats. To an
  empty geometry shapely gives the bounds \<open>(nan, nan, nan, nan)\<close>. A bound
  is therefore a coordinate value or \<open>NaN\<close>, and Python's \<^verbatim>\<open><=\<close> on two bounds is
  false as soon as one of them is \<open>NaN\<close>.
\<close>

datatype 'c bound = Finite 'c | NaN

fun py_le :: "('c::linorder) bound \<Rightarrow> 'c bound \<Rightarrow> bool" where
  "py_le (Finite a) (Finite b) = (a \<le> b)"
| "py_le _ _ = False"

definition bounds ::
  "('c::linorder) geometry \<Rightarrow> 'c bound \<times> 'c bound \<times> 'c bound \<times> 'c bound" where
  "bounds g =
     (case envelope_coords g of
        [] \<Rightarrow> (NaN, NaN, NaN, NaN)
      | (x, y) # cs \<Rightarrow>
          (Finite (fold min (map fst cs) x), Finite (fold min (map snd cs) y),
           Finite (fold max (map fst cs) x), Finite (fold max (map snd cs) y)))"

text \<open>
  \<^verbatim>\<open>
  def get_bbox_from_multipolygon(multipolygon):
      bounds = multipolygon.bounds  # [min_lon, min_lat, max_lon, max_lat]
      return [bounds[1], bounds[0], bounds[3], bounds[2]]
  \<close>
\<close>

definition get_bbox_from_multipolygon :: "('c::linorder) geometry \<Rightarrow> 'c bound list" where
  "get_bbox_from_multipolygon multipolygon =
     (case bounds multipolygon of (b0, b1, b2, b3) \<Rightarrow> [b1, b0, b3, b2])"

section \<open>Python values, exceptions and HTTP\<close>

text \<open>
  A response body parsed by \<^verbatim>\<open>response.json()\<close> is a JSON value. Numbers are
  rationals: Python compares an int and a float by value, and no function here computes
  with them.
\<close>

datatype json =
    JNull
  | JBool bool
  | JNum rat
  | JStr string
  | JArr "json list"
  | JObj "(string \<times> json) list"

text \<open>
  A response of \<^verbatim>\<open>requests.get\<close>: its status code and its body, \<open>None\<close> when
  the body is not JSON (then \<^verbatim>\<open>response.json()\<close> raises).
\<close>

record response =
  status_code :: int
  body :: "json option"

definition response_json :: "response \<Rightarrow> error + json" where
  "response_json r = (case body r of None \<Rightarrow> Inl JSONDecodeError | Some j \<Rightarrow> Inr j)"

text \<open>
  \<^verbatim>\<open>response.raise_for_status()\<close> of the requests library raises HTTPError for a
  client error (400 to 499) or a server error (500 to 599) and returns \<^verbatim>\<open>None\<close> for
  every other status.
\<close>

definition raise_for_status :: "response \<Rightarrow> error + unit" where
  "raise_for_status r =
     (if 400 \<le> status_code r \<and> status_code r < 600 then Inl (HTTPError (status_code r))
      else Inr ())"


text \<open>The method \<^verbatim>\<open>value.get(key, default)\<close>: only a dict has it.\<close>

fun get_default :: "json \<Rightarrow> string \<Rightarrow> json \<Rightarrow> error + json" where
  "get_default (JObj members) key dflt =
     (case map_of members key of None \<Rightarrow> Inr dflt | Some v \<Rightarrow> Inr v)"
| "get_default _ key dflt = Inl AttributeError"




text \<open>
  The network is a parameter: \<open>http query w\<close> is the response to \<open>query\<close> when the
  world outside is in state \<open>w\<close>, together with the world's next state. Every call of
  \<^verbatim>\<open>requests.get\<close> is recorded in \<open>sent\<close>, in order. A request that gets no response
  at all (a connection error) is not modelled.
\<close>

record ('q, 'w) net =
  sent :: "'q list"
  world :: 'w

definition requests_get ::
  "('q \<Rightarrow> 'w \<Rightarrow> response \<times> 'w) \<Rightarrow> 'q \<Rightarrow> ('q, 'w) net \<Rightarrow> response \<times> ('q, 'w) net" where
  "requests_get http query n =
     (case http query (world n) of
        (r, w') \<Rightarrow> (r, \<lparr>sent = sent n @ [query], world = w'\<rparr>))"

section \<open>The weather fetcher\<close>

text \<open>
  A \<^verbatim>\<open>datetime\<close> is the number of its day (\<^verbatim>\<open>datetime.toordinal()\<close>, day 1 is
  0001-01-01), \<^verbatim>\<open>timedelta(days=7)\<close> is the number 7, and the string
  \<^verbatim>\<open>current_date.strftime('%Y-%m-%d')\<close> is identified with the day it writes. The
  day number of a calendar date is computed as the datetime module does.
\<close>

definition is_leap :: "int \<Rightarrow> bool" where
  "is_leap year = (year mod 4 = 0 \<and> (year mod 100 \<noteq> 0 \<or> year mod 400 = 0))"

definition days_before_year :: "int \<Rightarrow> int" where
  "days_before_year year =
     (let y = year - 1 in y * 365 + y div 4 - y div 100 + y div 400)"

definition days_before_month :: "int \<Rightarrow> int \<Rightarrow> int" where
  "days_before_month year month =
     [-1, 0, 31, 59, 90, 120, 151, 181, 212, 243, 273, 304, 334] ! nat month
       + (if 2 < month \<and> is_leap year then 1 else 0)"

definition ymd2ord :: "int \<Rightarrow> int \<Rightarrow> int \<Rightarrow> int" where
  "ymd2ord year month day = days_before_year year + days_before_month year month + day"

text \<open>
  The last day that a \<^verbatim>\<open>datetime\<close> can hold is 9999-12-31, day 3652059, and the first
  is day 1. Adding a \<^verbatim>\<open>timedelta\<close> that leads out of this range raises OverflowError
  (date value out of range).
\<close>

definition MAXORDINAL :: int where
  "MAXORDINAL = 3652059"

definition add_days :: "int \<Rightarrow> int \<Rightarrow> error + int" where
  "add_days d n = (if d + n < 1 \<or> MAXORDINAL < d + n then Inl OverflowError else Inr (d + n))"

text \<open>
  The query parameters of one request; \<^verbatim>\<open>appid\<close> and \<^verbatim>\<open>units\<close> are the same in
  every request and left out.
\<close>

record 'c weather_query =
  param_lat :: 'c
  param_lon :: 'c
  param_date :: int
  param_tz :: string

text \<open>
  The two dicts that \<^verbatim>\<open>get_daily_weather\<close> returns: one has the key \<^verbatim>\<open>data\<close>, the
  other the key \<^verbatim>\<open>error\<close>.
\<close>

datatype 'c daily_weather =
    WithData 'c 'c int json
  | WithError 'c 'c int json

text \<open>
  \<^verbatim>\<open>
  def get_daily_weather(lat, lon, date, tz):
      params = {'lat': lat, 'lon': lon, 'date': date, 'tz': tz,
                'appid': API_KEY, 'units': 'metric'}
      response = requests.get(BASE_URL, params=params)
      if response.status_code == 200:
          data = response.json()
          return {'latitude': lat, 'longitude': lon, 'date': date, 'data': data}
      else:
          return {'latitude': lat, 'longitude': lon, 'date': date,
                  'error': response.json().get('message', 'Failed to fetch data')}
  \<close>
\<close>

definition get_daily_weather ::
  "('c weather_query \<Rightarrow> 'w \<Rightarrow> response \<times> 'w) \<Rightarrow> 'c \<Rightarrow> 'c \<Rightarrow> int \<Rightarrow> string \<Rightarrow>
   ('c weather_query, 'w) net \<Rightarrow> error + ('c daily_weather \<times> ('c weather_query, 'w) net)" where
  "get_daily_weather http lat lon date_str tz n =
     (case requests_get http
             \<lparr>param_lat = lat, param_lon = lon, param_date = date_str, param_tz = tz\<rparr> n of
        (response, n') \<Rightarrow>
          if status_code response = 200 then
            (case response_json response of
               Inl e \<Rightarrow> Inl e
             | Inr payload \<Rightarrow> Inr (WithData lat lon date_str payload, n'))
          else
            (case response_json response of
               Inl e \<Rightarrow> Inl e
             | Inr j \<Rightarrow>
                 (case get_default j ''message'' (JStr ''Failed to fetch data'') of
                    Inl e \<Rightarrow> Inl e
                  | Inr message \<Rightarrow> Inr (WithError lat lon date_str message, n'))))"

record 'c weather_record =
  latitude :: 'c
  longitude :: 'c
  timezone :: string
  date :: int
  data :: json

text \<open>The one line the loop prints: the place, the date and the error it was given.\<close>

datatype 'c weather_line = ErrorFetching 'c 'c int json

text \<open>
  What the loop changes: the list \<^verbatim>\<open>weather_records\<close>, the standard output and the
  network.
\<close>

record ('c, 'w) weather_state =
  weather_records :: "'c weather_record list"
  weather_out :: "'c weather_line list"
  weather_net :: "('c weather_query, 'w) net"

text \<open>
  The body of the \<^verbatim>\<open>while\<close> loop, up to the increment of \<^verbatim>\<open>current_date\<close>:
  \<^verbatim>\<open>
  date_str = current_date.strftime('%Y-%m-%d')
  weather_data = get_daily_weather(lat, lon, date_str, tz)
  if 'error' not in weather_data:
      weather_records.append({'latitude': lat, 'longitude': lon, 'timezone': tz,
                              'date': date_str, 'data': weather_data['data']})
  else:
      print(f"Error fetching data for {lat}, {lon} on {date_str}: {weather_data['error']}")
  \<close>
\<close>

definition weather_body ::
  "('c weather_query \<Rightarrow> 'w \<Rightarrow> response \<times> 'w) \<Rightarrow> 'c \<Rightarrow> 'c \<Rightarrow> string \<Rightarrow> int \<Rightarrow>
   ('c, 'w) weather_state \<Rightarrow> error + ('c, 'w) weather_state" where
  "weather_body http lat lon tz current_date s =
     (case get_daily_weather http lat lon current_date tz (weather_net s) of
        Inl e \<Rightarrow> Inl e
      | Inr (WithData _ _ _ payload, n') \<Rightarrow>
          Inr (s\<lparr>weather_records := weather_records s @
                    [\<lparr>latitude = lat, longitude = lon, timezone = tz,
                      date = current_date, data = payload\<rparr>],
                 weather_net := n'\<rparr>)
      | Inr (WithError _ _ _ err, n') \<Rightarrow>
          Inr (s\<lparr>weather_out := weather_out s @ [ErrorFetching lat lon current_date err],
                 weather_net := n'\<rparr>))"

text \<open>
  \<^verbatim>\<open>
  current_date = start_date
  while current_date <= end_date:
      ... body ...
      current_date += timedelta(days=7)
      time.sleep(1)
  \<close>
  The pause changes nothing that the model holds. The increment raises OverflowError
  when the next date would be after 9999-12-31.
\<close>

function weather_while ::
  "('c weather_query \<Rightarrow> 'w \<Rightarrow> response \<times> 'w) \<Rightarrow> 'c \<Rightarrow> 'c \<Rightarrow> string \<Rightarrow> int \<Rightarrow> int \<Rightarrow>
   ('c, 'w) weather_state \<Rightarrow> error + ('c, 'w) weather_state" where
  "weather_while http lat lon tz current_date end_date s =
     (if current_date \<le> end_date then
        (case weather_body http lat lon tz current_date s of
           Inl e \<Rightarrow> Inl e
         | Inr s' \<Rightarrow>
             (case add_days current_date 7 of
                Inl e \<Rightarrow> Inl e
              | Inr next_date \<Rightarrow> weather_while http lat lon tz next_date end_date s'))
      else Inr s)"
  by pat_completeness auto
termination
  by (relation "measure (\<lambda>(http, lat, lon, tz, current_date, end_date, s).
        nat (end_date + 1 - current_date))") (auto simp: add_days_def split: if_splits)

declare weather_while.simps [simp del]

text \<open>
  \<^verbatim>\<open>
  for _, row in tqdm(gdf.iterrows()):
      lat = row['centroid_coordinates'][0]
      lon = row['centroid_coordinates'][1]
      tz = '+02:00'
      ... while loop ...
  \<close>
  The loop reads one column of the table, \<^verbatim>\<open>centroid_coordinates\<close>, so the table is
  the list of its rows' centroid tuples.
\<close>

fun weather_rows ::
  "('c weather_query \<Rightarrow> 'w \<Rightarrow> response \<times> 'w) \<Rightarrow> ('c \<times> 'c) list \<Rightarrow> int \<Rightarrow> int \<Rightarrow>
   ('c, 'w) weather_state \<Rightarrow> error + ('c, 'w) weather_state" where
  "weather_rows http [] start_date end_date s = Inr s"
| "weather_rows http (row # rows) start_date end_date s =
     (case weather_while http (fst row) (snd row) ''+02:00'' start_date end_date s of
        Inl e \<Rightarrow> Inl e
      | Inr s' \<Rightarrow> weather_rows http rows start_date end_date s')"

text \<open>
  \<^verbatim>\<open>fetch_weather_for_geodataframe(gdf, start_date, end_date)\<close>: the two dates are the
  values that \<^verbatim>\<open>datetime.strptime\<close> parses from the date strings. The table returned is
  the field \<open>weather_records\<close> of the final state; the state also tells what was printed
  and what was requested.
\<close>

definition fetch_weather_for_geodataframe ::
  "('c weather_query \<Rightarrow> 'w \<Rightarrow> response \<times> 'w) \<Rightarrow> ('c \<times> 'c) list \<Rightarrow> int \<Rightarrow> int \<Rightarrow> 'w \<Rightarrow>
   error + ('c, 'w) weather_state" where
  "fetch_weather_for_geodataframe http gdf start_date end_date w =
     weather_rows http gdf start_date end_date
       \<lparr>weather_records = [], weather_out = [], weather_net = \<lparr>sent = [], world = w\<rparr>\<rparr>"

section \<open>The OpenStreetMap fetcher\<close>

text \<open>
  The two Overpass queries of the notebook, by what they ask for: the ways tagged
  \<^verbatim>\<open>highway\<close>, \<^verbatim>\<open>railway\<close> or \<^verbatim>\<open>waterway\<close> in a bounding box (written into the
  query as \<^verbatim>\<open>bbox[0]\<close> to \<^verbatim>\<open>bbox[3]\<close>), and the nodes with the given ids.
\<close>

datatype 'c osm_query =
    WaysInBBox "'c bound" "'c bound" "'c bound" "'c bound"
  | NodesById "int list"

subsection \<open>Node coordinates, in chunks\<close>











subsection \<open>The ways of a bounding box\<close>

text \<open>
  \<^verbatim>\<open>
  def get_osm_data_from_bbox(bbox):
      query = f"... way["highway"]({bbox[0]},{bbox[1]},{bbox[2]},{bbox[3]}); ..."
      response = requests.get(overpass_url, params={'data': query})
      if response.status_code == 200:
          osm_data = response.json()
          return osm_data.get('elements', [])
      else:
          response.raise_for_status()
  \<close>
  A bounding box with fewer than four entries raises IndexError when the query is
  written. When \<^verbatim>\<open>raise_for_status\<close> does not raise, the function ends without a
  \<^verbatim>\<open>return\<close> and its value is Python's \<^verbatim>\<open>None\<close>: \<open>None\<close> here, and \<open>Some\<close>
  for a value returned by the first branch.
\<close>

definition get_osm_data_from_bbox ::
  "('c osm_query \<Rightarrow> 'w \<Rightarrow> response \<times> 'w) \<Rightarrow> 'c bound list \<Rightarrow> ('c osm_query, 'w) net \<Rightarrow>
   error + (json option \<times> ('c osm_query, 'w) net)" where
  "get_osm_data_from_bbox http bbox n =
     (if length bbox < 4 then Inl IndexError
      else
        case requests_get http (WaysInBBox (bbox ! 0) (bbox ! 1) (bbox ! 2) (bbox ! 3)) n of
          (response, n') \<Rightarrow>
            if status_code response = 200 then
              (case response_json response of
                 Inl e \<Rightarrow> Inl e
               | Inr osm_data \<Rightarrow>
                   (case get_default osm_data ''elements'' (JArr []) of
                      Inl e \<Rightarrow> Inl e
                    | Inr elements \<Rightarrow> Inr (Some elements, n')))
            else
              (case raise_for_status response of
                 Inl e \<Rightarrow> Inl e
               | Inr _ \<Rightarrow> Inr (None, n')))"

text \<open>
  \<^verbatim>\<open>
  osm_data = list()
  for _, row in tqdm(gdf.iterrows(), total=gdf.shape[0]):
      multipolygon = row['geometry']
      bbox = get_bbox_from_multipolygon(multipolygon)
      osm_data.append(get_osm_data_from_bbox(bbox))
  \<close>
  The state of the loop is the list \<^verbatim>\<open>osm_data\<close> and the network.
\<close>

fun osm_loop ::
  "('c osm_query \<Rightarrow> 'w \<Rightarrow> response \<times> 'w) \<Rightarrow> ('c::linorder) geometry list \<Rightarrow>
   json option list \<times> ('c osm_query, 'w) net \<Rightarrow>
   error + (json option list \<times> ('c osm_query, 'w) net)" where
  "osm_loop http [] (osm_data, n) = Inr (osm_data, n)"
| "osm_loop http (multipolygon # rows) (osm_data, n) =
     (case get_osm_data_from_bbox http (get_bbox_from_multipolygon multipolygon) n of
        Inl e \<Rightarrow> Inl e
      | Inr (elements, n') \<Rightarrow> osm_loop http rows (osm_data @ [elements], n'))"

section \<open>Merging the weather table into the boundary table\<close>

text \<open>
  Modelled from the spec: the join itself is \<^verbatim>\<open>pd.merge\<close> of pandas, which is not part
  of the notebook's code; the notebook only calls it:
  \<^verbatim>\<open>merged_df = pd.merge(gdf, weather_df, on=['latitude', 'longitude'], how='left')\<close>.
  The spec asks for left join semantics on the pair (latitude, longitude): a boundary row
  is joined to every weather row with the same coordinate, and a boundary row that has no
  such weather row is kept once, with empty weather fields (\<open>None\<close>). The rows keep the
  order of the boundary table.
\<close>

definition merge_left ::
  "('l \<Rightarrow> 'k) \<Rightarrow> ('r \<Rightarrow> 'k) \<Rightarrow> 'l list \<Rightarrow> 'r list \<Rightarrow> ('l \<times> 'r option) list" where
  "merge_left left_on right_on left_rows right_rows =
     concat (map (\<lambda>l.
       case filter (\<lambda>r. right_on r = left_on l) right_rows of
         [] \<Rightarrow> [(l, None)]
       | matches \<Rightarrow> map (\<lambda>r. (l, Some r)) matches) left_rows)"

text \<open>
  The notebook's call: the key of a boundary row is its centroid tuple, which the cell
  before the merge copies into the columns \<^verbatim>\<open>latitude\<close> and \<^verbatim>\<open>longitude\<close>; the key
  of a weather row is its two fields of these names.
\<close>

definition merged_df ::
  "('b \<Rightarrow> 'c \<times> 'c) \<Rightarrow> 'b list \<Rightarrow> 'c weather_record list \<Rightarrow>
   ('b \<times> 'c weather_record option) list" where
  "merged_df centroid_coordinates gdf weather_df =
     merge_left centroid_coordinates (\<lambda>r. (latitude r, longitude r)) gdf weather_df"

section \<open>Notions used to state the properties\<close>

text \<open>
  Validity and centroid for the geometries of the examples: a point is valid and is its
  own centroid; the other geometry with coordinates used there, a polygon whose ring
  crosses itself, is not valid.
\<close>

fun example_valid :: "'c geometry \<Rightarrow> bool" where
  "example_valid (Point p) = True"
| "example_valid _ = False"

definition example_centre :: "'c geometry \<Rightarrow> 'c coord" where
  "example_centre g = hd (envelope_coords g)"

text \<open>A server that gives the same response to every request and has no state.\<close>

definition reply_with :: "response \<Rightarrow> 'q \<Rightarrow> 'w \<Rightarrow> response \<times> 'w" where
  "reply_with r q w = (r, w)"

text \<open>
  A server whose state is the list of the replies it will give, one per request in turn,
  and that gives the reply \<open>r\<close> once the list is used up.
\<close>

definition reply_in_turn :: "response \<Rightarrow> 'q \<Rightarrow> response list \<Rightarrow> response \<times> response list" where
  "reply_in_turn r q pending = (case pending of [] \<Rightarrow> (r, []) | p # rest \<Rightarrow> (p, rest))"


fun world_after :: "('q \<Rightarrow> 'w \<Rightarrow> response \<times> 'w) \<Rightarrow> 'q list \<Rightarrow> 'w \<Rightarrow> 'w" where
  "world_after http [] w = w"
| "world_after http (q # qs) w = world_after http qs (snd (http q w))"

subsection \<open>Weather\<close>

text \<open>
  The weather endpoint keeps to its interface when a response has a JSON body and, for a
  status other than 200, the body is an object.
\<close>

fun is_object :: "json \<Rightarrow> bool" where
  "is_object (JObj members) = True"
| "is_object _ = False"

definition weather_response_ok :: "response \<Rightarrow> bool" where
  "weather_response_ok r =
     (case body r of None \<Rightarrow> False | Some j \<Rightarrow> status_code r = 200 \<or> is_object j)"

text \<open>The dates that the \<^verbatim>\<open>while\<close> loop visits.\<close>

function sample_dates :: "int \<Rightarrow> int \<Rightarrow> int list" where
  "sample_dates current_date end_date =
     (if current_date \<le> end_date then current_date # sample_dates (current_date + 7) end_date
      else [])"
  by pat_completeness auto
termination
  by (relation "measure (\<lambda>(current_date, end_date). nat (end_date + 1 - current_date))") auto

declare sample_dates.simps [simp del]

definition weather_queries :: "'c \<times> 'c \<Rightarrow> int \<Rightarrow> int \<Rightarrow> 'c weather_query list" where
  "weather_queries row start_date end_date =
     map (\<lambda>d. \<lparr>param_lat = fst row, param_lon = snd row, param_date = d, param_tz = ''+02:00''\<rparr>)
       (sample_dates start_date end_date)"

text \<open>The number of requests of a run, when the run ends without an exception.\<close>

definition weather_request_count ::
  "('c weather_query \<Rightarrow> 'w \<Rightarrow> response \<times> 'w) \<Rightarrow> ('c \<times> 'c) list \<Rightarrow> int \<Rightarrow> int \<Rightarrow> 'w \<Rightarrow>
   nat option" where
  "weather_request_count http gdf start_date end_date w =
     (case fetch_weather_for_geodataframe http gdf start_date end_date w of
        Inl e \<Rightarrow> None
      | Inr s \<Rightarrow> Some (length (sent (weather_net s))))"

subsection \<open>Overpass\<close>








section \<open>Properties of the boundary loader\<close>

text \<open>
  C1, for a MultiPolygon: the claim asks for one entry of the outer list per constituent
  polygon ring. The MultiPolygon branch wraps its list of rings in one more list, so the
  outer list has a single entry whatever the number of polygons: for the two triangles
  below the outer list has length 1, and its only entry is the list of the two rings. The
  Polygon branch and the docstring (a list of lists of coordinates) have the rings
  themselves as the entries of the outer list.
\<close>

theorem convert_multipolygon_two_polygons_one_entry:
  "convert_coordinates_format
     (MultiPolygon
        [\<lparr>exterior = [(0, 0), (1, 0), (0, 1), (0, 0)], interiors = []\<rparr>,
         \<lparr>exterior = [(5, 5), (6, 5), (5, 6), (5, 5 :: int)], interiors = []\<rparr>])
   = [Nested [Ring [(0, 0), (1, 0), (0, 1), (0, 0)], Ring [(5, 5), (6, 5), (5, 6), (5, 5)]]]
   \<and> length (convert_coordinates_format
        (MultiPolygon
          [\<lparr>exterior = [(0, 0), (1, 0), (0, 1), (0, 0)], interiors = []\<rparr>,
           \<lparr>exterior = [(5, 5), (6, 5), (5, 6), (5, 5 :: int)], interiors = []\<rparr>])) = 1
   \<and> length (geoms
        (MultiPolygon
          [\<lparr>exterior = [(0, 0), (1, 0), (0, 1), (0, 0)], interiors = []\<rparr>,
           \<lparr>exterior = [(5, 5), (6, 5), (5, 6), (5, 5 :: int)], interiors = []\<rparr>])) = 2"
  by (simp add: convert_coordinates_format_def)

text \<open>
  C9: a geometry whose type is neither \<^verbatim>\<open>Polygon\<close> nor \<^verbatim>\<open>MultiPolygon\<close> is
  converted to the empty list; the function is total, nothing is raised.
\<close>

theorem convert_other_geometry_empty:
  assumes "geom_type geometry \<noteq> ''Polygon''" and "geom_type geometry \<noteq> ''MultiPolygon''"
  shows "convert_coordinates_format geometry = []"
  using assms by (simp add: convert_coordinates_format_def)

theorem convert_other_geometry_empty_witness:
  "geom_type (Point (32, 15 :: int)) \<noteq> ''Polygon''
   \<and> geom_type (Point (32, 15 :: int)) \<noteq> ''MultiPolygon''
   \<and> convert_coordinates_format (Point (32, 15 :: int)) = []
   \<and> convert_coordinates_format (LineString [(32, 15), (33, 16 :: int)]) = []"
  using convert_other_geometry_empty [of "Point (32, 15 :: int)"]
    convert_other_geometry_empty [of "LineString [(32, 15), (33, 16 :: int)]"]
  by simp

lemma centroid_loop_nonempty:
  "\<forall>g \<in> set gdf. \<not> is_empty g \<Longrightarrow>
   centroid_loop valid centre gdf acc =
     Inr (acc @ map (\<lambda>g. (snd (centre g), fst (centre g))) (filter (is_valid valid) gdf))"
  by (induction gdf arbitrary: acc) (simp_all add: centroid_def)

lemma filter_length_less_iff:
  "length (filter P xs) < length xs \<longleftrightarrow> (\<exists>x \<in> set xs. \<not> P x)"
proof (induction xs)
  case Nil
  show ?case by simp
next
  case (Cons x xs)
  have "length (filter P xs) \<le> length xs" by simp
  with Cons show ?case by auto
qed

text \<open>
  C6, as the claim states it, fails on a table that has an empty geometry. Shapely counts
  the empty polygon as valid, so its row passes the check; its centroid is the empty
  point, and reading the latitude of that point raises. The function then returns no
  list at all, also not the centroid of the point in the row before.
\<close>

theorem get_centroid_coordinates_empty_geometry_counterexample:
  "is_valid example_valid (Polygon \<lparr>exterior = [], interiors = []\<rparr> :: int geometry)
   \<and> get_centroid_coordinates example_valid example_centre
       [Point (32, 15), Polygon \<lparr>exterior = [], interiors = []\<rparr> :: int geometry]
     = Inl GEOSException"
  by (simp add: get_centroid_coordinates_def is_valid_def centroid_def is_empty_def)

text \<open>
  C6, amended: for a table without an empty geometry, the centroids returned are those of
  the geometries that pass the validity check, as (latitude, longitude) tuples in the
  order of the table; an invalid geometry adds nothing, and nothing is raised or printed.
  So the list is as long as the number of valid geometries, and it is shorter than the
  table exactly when some geometry is invalid.
\<close>

theorem get_centroid_coordinates_valid_only:
  assumes "\<forall>g \<in> set gdf. \<not> is_empty g"
  shows "get_centroid_coordinates valid centre gdf =
           Inr (map (\<lambda>g. (snd (centre g), fst (centre g))) (filter (is_valid valid) gdf))
       \<and> (\<forall>g \<in> set gdf. centroid centre g = Some (centre g))
       \<and> (length (filter (is_valid valid) gdf) < length gdf
            \<longleftrightarrow> (\<exists>g \<in> set gdf. \<not> is_valid valid g))"
  using assms
  by (simp add: get_centroid_coordinates_def centroid_loop_nonempty filter_length_less_iff
      centroid_def)

theorem get_centroid_coordinates_valid_only_witness:
  "\<not> is_empty (Point (32, 15 :: int))
   \<and> \<not> is_empty
        (Polygon \<lparr>exterior = [(0, 0), (1, 1), (1, 0), (0, 1), (0, 0 :: int)], interiors = []\<rparr>)
   \<and> \<not> is_empty (Point (36, 16 :: int))
   \<and> get_centroid_coordinates example_valid example_centre
       [Point (32, 15),
        Polygon \<lparr>exterior = [(0, 0), (1, 1), (1, 0), (0, 1), (0, 0)], interiors = []\<rparr>,
        Point (36, 16 :: int)]
     = Inr [(15, 32), (16, 36)]
   \<and> \<not> is_valid example_valid
        (Polygon \<lparr>exterior = [(0, 0), (1, 1), (1, 0), (0, 1), (0, 0 :: int)], interiors = []\<rparr>)"
  using get_centroid_coordinates_valid_only [of "[Point (32, 15),
        Polygon \<lparr>exterior = [(0, 0), (1, 1), (1, 0), (0, 1), (0, 0)], interiors = []\<rparr>,
        Point (36, 16 :: int)]" example_valid example_centre]
  by (simp add: is_empty_def is_valid_def example_centre_def)

lemma Min_le_Max_nonempty:
  assumes "finite (S::'a::linorder set)" and "S \<noteq> {}"
  shows "Min S \<le> Max S"
proof -
  from assms(2) obtain x where x: "x \<in> S" by blast
  have "Min S \<le> x" using assms(1) x by (rule Min_le)
  also have "x \<le> Max S" using assms(1) x by (rule Max_ge)
  finally show ?thesis .
qed

lemma fold_min_Min: "fold min xs (a::'a::linorder) = Min (set (a # xs))"
  by (simp only: Min.set_eq_fold)

lemma fold_max_Max: "fold max xs (a::'a::linorder) = Max (set (a # xs))"
  by (simp only: Max.set_eq_fold)

lemma bounds_nonempty:
  assumes "envelope_coords g \<noteq> []"
  shows "bounds g =
     (Finite (Min (fst ` set (envelope_coords g))), Finite (Min (snd ` set (envelope_coords g))),
      Finite (Max (fst ` set (envelope_coords g))), Finite (Max (snd ` set (envelope_coords g))))"
proof -
  from assms obtain x y cs where e: "envelope_coords g = (x, y) # cs"
    by (cases "envelope_coords g") auto
  show ?thesis
    unfolding bounds_def e
    by (simp only: list.case prod.case fold_min_Min fold_max_Max list.set(2) image_insert
        fst_conv snd_conv set_map list.map)
qed

text \<open>
  C3, as the claim states it, fails on the empty polygon: its source bounds are four NaN,
  the function returns them reordered, and neither element 0 and element 2 nor element 1
  and element 3 are in the order that the claim asks for.
\<close>

theorem get_bbox_empty_polygon_counterexample:
  "geom_type (Polygon \<lparr>exterior = [], interiors = []\<rparr> :: int geometry) = ''Polygon''
   \<and> get_bbox_from_multipolygon (Polygon \<lparr>exterior = [], interiors = []\<rparr> :: int geometry)
     = [NaN, NaN, NaN, NaN]
   \<and> \<not> py_le
        (get_bbox_from_multipolygon (Polygon \<lparr>exterior = [], interiors = []\<rparr> :: int geometry) ! 0)
        (get_bbox_from_multipolygon (Polygon \<lparr>exterior = [], interiors = []\<rparr> :: int geometry) ! 2)
   \<and> \<not> py_le
        (get_bbox_from_multipolygon (Polygon \<lparr>exterior = [], interiors = []\<rparr> :: int geometry) ! 1)
        (get_bbox_from_multipolygon (Polygon \<lparr>exterior = [], interiors = []\<rparr> :: int geometry) ! 3)"
  by (simp add: get_bbox_from_multipolygon_def bounds_def)

text \<open>
  C3, amended: for a polygon or multi-polygon that has at least one coordinate, the source bounds
  are (min-lon, min-lat, max-lon, max-lat), the smallest and largest coordinate on each
  axis, and \<^verbatim>\<open>get_bbox_from_multipolygon\<close> returns them reordered as
  [min-lat, min-lon, max-lat, max-lon]; element 0 is at most element 2 and element 1 at
  most element 3.
\<close>

theorem get_bbox_reordered_and_ordered:
  fixes g :: "('c::linorder) geometry"
  assumes "geom_type g = ''Polygon'' \<or> geom_type g = ''MultiPolygon''"
    and "envelope_coords g \<noteq> []"
  shows "\<exists>min_lon min_lat max_lon max_lat.
           bounds g = (Finite min_lon, Finite min_lat, Finite max_lon, Finite max_lat)
         \<and> get_bbox_from_multipolygon g =
             [Finite min_lat, Finite min_lon, Finite max_lat, Finite max_lon]
         \<and> min_lon = Min (fst ` set (envelope_coords g))
         \<and> min_lat = Min (snd ` set (envelope_coords g))
         \<and> max_lon = Max (fst ` set (envelope_coords g))
         \<and> max_lat = Max (snd ` set (envelope_coords g))
         \<and> py_le (get_bbox_from_multipolygon g ! 0) (get_bbox_from_multipolygon g ! 2)
         \<and> py_le (get_bbox_from_multipolygon g ! 1) (get_bbox_from_multipolygon g ! 3)"
proof -
  let ?cs = "envelope_coords g"
  have fin: "finite (fst ` set ?cs)" "finite (snd ` set ?cs)" by simp_all
  have ne: "fst ` set ?cs \<noteq> {}" "snd ` set ?cs \<noteq> {}" using assms(2) by simp_all
  have 1: "Min (fst ` set ?cs) \<le> Max (fst ` set ?cs)"
    using fin(1) ne(1) by (rule Min_le_Max_nonempty)
  have 2: "Min (snd ` set ?cs) \<le> Max (snd ` set ?cs)"
    using fin(2) ne(2) by (rule Min_le_Max_nonempty)
  show ?thesis
    using 1 2 by (simp add: get_bbox_from_multipolygon_def bounds_nonempty [OF assms(2)])
qed

theorem get_bbox_reordered_and_ordered_witness:
  "(geom_type (Polygon \<lparr>exterior = [(21, 8), (39, 12), (30, 23), (21, 8 :: int)], interiors = []\<rparr>)
      = ''Polygon''
    \<or> geom_type (Polygon \<lparr>exterior = [(21, 8), (39, 12), (30, 23), (21, 8 :: int)], interiors = []\<rparr>)
      = ''MultiPolygon'')
   \<and> envelope_coords
       (Polygon \<lparr>exterior = [(21, 8), (39, 12), (30, 23), (21, 8 :: int)], interiors = []\<rparr>) \<noteq> []
   \<and> bounds (Polygon \<lparr>exterior = [(21, 8), (39, 12), (30, 23), (21, 8 :: int)], interiors = []\<rparr>)
       = (Finite 21, Finite 8, Finite 39, Finite 23)
   \<and> get_bbox_from_multipolygon
       (Polygon \<lparr>exterior = [(21, 8), (39, 12), (30, 23), (21, 8 :: int)], interiors = []\<rparr>)
       = [Finite 8, Finite 21, Finite 23, Finite 39]"
  using get_bbox_reordered_and_ordered
    [of "Polygon \<lparr>exterior = [(21, 8), (39, 12), (30, 23), (21, 8 :: int)], interiors = []\<rparr>"]
  by (simp add: bounds_def get_bbox_from_multipolygon_def)

section \<open>Properties of the weather fetcher\<close>

lemma length_sample_dates:
  "length (sample_dates s e) = (if s \<le> e then nat ((e - s) div 7 + 1) else 0)"
proof (induction s e rule: sample_dates.induct)
  case (1 s e)
  show ?case
  proof (cases "s \<le> e")
    case False
    then show ?thesis by (simp add: sample_dates.simps [of s e])
  next
    case True
    have step: "length (sample_dates s e) = Suc (length (sample_dates (s + 7) e))"
      using True by (subst sample_dates.simps) simp
    show ?thesis
    proof (cases "s + 7 \<le> e")
      case True
      have "e - s = (e - (s + 7)) + 7" by simp
      then have "(e - s) div 7 = ((e - (s + 7)) + 7) div 7" by (rule arg_cong)
      also have "\<dots> = (e - (s + 7)) div 7 + 1" by simp
      finally have eq: "(e - s) div 7 = (e - (s + 7)) div 7 + 1" .
      have nonneg: "0 \<le> (e - (s + 7)) div 7 + 1" using True by simp
      have ih: "length (sample_dates (s + 7) e) = nat ((e - (s + 7)) div 7 + 1)"
        using "1.IH" [OF \<open>s \<le> e\<close>] True by simp
      have "nat ((e - s) div 7 + 1) = Suc (nat ((e - (s + 7)) div 7 + 1))"
        unfolding eq Suc_nat_eq_nat_zadd1 [OF nonneg] by (simp add: add.commute)
      then show ?thesis using step ih \<open>s \<le> e\<close> by simp
    next
      case False
      then have "(e - s) div 7 = 0" using \<open>s \<le> e\<close> by simp
      then show ?thesis using "1.IH" [OF \<open>s \<le> e\<close>] False \<open>s \<le> e\<close> step by simp
    qed
  qed
qed

lemma sample_dates_mem:
  "d \<in> set (sample_dates s e) \<Longrightarrow> s \<le> d \<and> d \<le> e \<and> (d - s) mod 7 = 0"
proof (induction s e rule: sample_dates.induct)
  case (1 s e)
  show ?case
  proof (cases "s \<le> e")
    case False
    with "1.prems" show ?thesis by (simp add: sample_dates.simps [of s e])
  next
    case True
    then have "sample_dates s e = s # sample_dates (s + 7) e"
      by (subst sample_dates.simps) simp
    with "1.prems" have "d = s \<or> d \<in> set (sample_dates (s + 7) e)" by simp
    then show ?thesis
    proof
      assume "d = s"
      with True show ?thesis by simp
    next
      assume "d \<in> set (sample_dates (s + 7) e)"
      from "1.IH" [OF True this] have ih: "s + 7 \<le> d" "d \<le> e" "(d - (s + 7)) mod 7 = 0"
        by simp_all
      have "d - s = (d - (s + 7)) + 7" by simp
      then have "(d - s) mod 7 = ((d - (s + 7)) + 7) mod 7" by (rule arg_cong)
      also have "\<dots> = (d - (s + 7)) mod 7" by (rule mod_add_self2)
      finally have "(d - s) mod 7 = 0" by (simp only: ih(3))
      moreover have "s \<le> d" using ih(1) by simp
      ultimately show ?thesis using ih(2) by blast
    qed
  qed
qed

lemma weather_body_ok:
  fixes lat lon d tz
  defines "q \<equiv> \<lparr>param_lat = lat, param_lon = lon, param_date = d, param_tz = tz\<rparr>"
  assumes "weather_response_ok (fst (http q (world (weather_net s))))"
  shows "\<exists>s'. weather_body http lat lon tz d s = Inr s'
           \<and> sent (weather_net s') = sent (weather_net s) @ [q]"
proof (cases "http q (world (weather_net s))")
  case (Pair r w')
  with assms(2) obtain j where j: "body r = Some j" "status_code r = 200 \<or> is_object j"
    by (auto simp: weather_response_ok_def split: option.splits)
  show ?thesis
  proof (cases "status_code r = 200")
    case True
    then show ?thesis using Pair j q_def
      by (simp add: weather_body_def get_daily_weather_def requests_get_def response_json_def)
  next
    case False
    with j(2) obtain members where "j = JObj members" by (cases j) auto
    then show ?thesis using Pair j False q_def
      by (simp add: weather_body_def get_daily_weather_def requests_get_def response_json_def
          split: option.splits)
  qed
qed

lemma weather_while_sent:
  assumes ok: "\<forall>q w. weather_response_ok (fst (http q w))"
    and "1 \<le> cur"
    and "\<forall>d \<in> set (sample_dates cur e). d + 7 \<le> MAXORDINAL"
  shows "\<exists>s'. weather_while http lat lon tz cur e s = Inr s'
           \<and> sent (weather_net s') = sent (weather_net s) @
               map (\<lambda>d. \<lparr>param_lat = lat, param_lon = lon, param_date = d, param_tz = tz\<rparr>)
                 (sample_dates cur e)"
  using assms
proof (induction http lat lon tz cur e s rule: weather_while.induct)
  case (1 http lat lon tz cur e s)
  note ok = "1.prems"(1) and pos = "1.prems"(2) and rng = "1.prems"(3)
  show ?case
  proof (cases "cur \<le> e")
    case False
    then show ?thesis
      by (simp add: weather_while.simps [of http lat lon tz cur e s] sample_dates.simps [of cur e])
  next
    case True
    let ?q = "\<lparr>param_lat = lat, param_lon = lon, param_date = cur, param_tz = tz\<rparr>"
    from ok have "weather_response_ok (fst (http ?q (world (weather_net s))))" by blast
    with weather_body_ok [where http = http and lat = lat and lon = lon and d = cur
        and tz = tz and s = s]
    obtain s1 where s1: "weather_body http lat lon tz cur s = Inr s1"
      "sent (weather_net s1) = sent (weather_net s) @ [?q]" by blast
    have sd: "sample_dates cur e = cur # sample_dates (cur + 7) e"
      using True by (subst sample_dates.simps) simp
    have "cur + 7 \<le> MAXORDINAL" using rng sd by simp
    then have ad: "add_days cur 7 = Inr (cur + 7)" using pos by (simp add: add_days_def)
    have rng': "\<forall>d \<in> set (sample_dates (cur + 7) e). d + 7 \<le> MAXORDINAL"
      using rng sd by simp
    have pos': "1 \<le> cur + 7" using pos by simp
    from "1.IH" [OF True s1(1) ad ok pos' rng'] obtain s' where
      s': "weather_while http lat lon tz (cur + 7) e s1 = Inr s'"
      "sent (weather_net s') = sent (weather_net s1) @
         map (\<lambda>d. \<lparr>param_lat = lat, param_lon = lon, param_date = d, param_tz = tz\<rparr>)
           (sample_dates (cur + 7) e)" by blast
    have "weather_while http lat lon tz cur e s = Inr s'"
      using True s1(1) s'(1) ad by (subst weather_while.simps) simp
    then show ?thesis using s'(2) s1(2) sd by simp
  qed
qed

lemma weather_rows_sent:
  assumes ok: "\<forall>q w. weather_response_ok (fst (http q w))"
    and pos: "1 \<le> start_date"
    and rng: "\<forall>d \<in> set (sample_dates start_date end_date). d + 7 \<le> MAXORDINAL"
  shows "\<exists>s'. weather_rows http gdf start_date end_date s = Inr s'
           \<and> sent (weather_net s') = sent (weather_net s) @
               concat (map (\<lambda>row. weather_queries row start_date end_date) gdf)"
proof (induction gdf arbitrary: s)
  case Nil
  show ?case by simp
next
  case (Cons row rows)
  from weather_while_sent [OF ok pos rng, of "fst row" "snd row" "''+02:00''" s]
  obtain s1 where
    s1: "weather_while http (fst row) (snd row) ''+02:00'' start_date end_date s = Inr s1"
    "sent (weather_net s1) = sent (weather_net s) @ weather_queries row start_date end_date"
    unfolding weather_queries_def by blast
  from Cons [of s1] obtain s' where s': "weather_rows http rows start_date end_date s1 = Inr s'"
    "sent (weather_net s') = sent (weather_net s1) @
       concat (map (\<lambda>row. weather_queries row start_date end_date) rows)" by blast
  show ?case using s1 s' by simp
qed

lemma length_concat_const:
  "\<forall>x \<in> set xs. length (f x) = n \<Longrightarrow> length (concat (map f xs)) = length xs * n"
  by (induction xs) simp_all

lemma ymd2ord_examples:
  "ymd2ord 2024 1 1 = 738886" "ymd2ord 2024 12 31 = 739251"
  "ymd2ord 2023 1 1 = 738521" "ymd2ord 2023 12 31 = 738885"
  "ymd2ord 9999 12 31 = MAXORDINAL"
  by (simp_all add: ymd2ord_def days_before_year_def days_before_month_def is_leap_def Let_def
      MAXORDINAL_def)

lemma reply_with_object_ok:
  "\<forall>q w. weather_response_ok (fst (reply_with \<lparr>status_code = 200, body = Some (JObj [])\<rparr> q w))"
  by (simp add: reply_with_def weather_response_ok_def)

lemma sample_dates_in_range:
  assumes "e + 7 \<le> MAXORDINAL"
  shows "\<forall>d \<in> set (sample_dates s e). d + 7 \<le> MAXORDINAL"
proof
  fix d assume "d \<in> set (sample_dates s e)"
  from sample_dates_mem [OF this] have "d \<le> e" by simp
  with assms show "d + 7 \<le> MAXORDINAL" by simp
qed

lemma one_year_in_range:
  assumes "e - s = 364 \<or> e - s = 365" and "s + 371 \<le> MAXORDINAL"
  shows "\<forall>d \<in> set (sample_dates s e). d + 7 \<le> MAXORDINAL"
proof
  fix d assume "d \<in> set (sample_dates s e)"
  from sample_dates_mem [OF this] have m: "s \<le> d" "d \<le> e" "(d - s) mod 7 = 0" by simp_all
  have "d - s \<noteq> 365"
  proof
    assume "d - s = 365"
    then have "(d - s) mod 7 = 1" by simp
    with m(3) show False by simp
  qed
  with m(2) assms(1) have "d - s \<le> 364" by auto
  with assms(2) show "d + 7 \<le> MAXORDINAL" by simp
qed

lemma weather_request_count_2024:
  "weather_request_count (reply_with \<lparr>status_code = 200, body = Some (JObj [])\<rparr>)
     [(15 :: int, 30)] (ymd2ord 2024 1 1) (ymd2ord 2024 12 31) () = Some 53"
proof -
  have pos: "1 \<le> ymd2ord 2024 1 1" by (simp add: ymd2ord_examples)
  have "ymd2ord 2024 12 31 + 7 \<le> MAXORDINAL" by (simp add: ymd2ord_examples MAXORDINAL_def)
  from weather_rows_sent [OF reply_with_object_ok pos sample_dates_in_range [OF this],
      of "[(15 :: int, 30)]"
      "\<lparr>weather_records = [], weather_out = [], weather_net = \<lparr>sent = [], world = ()\<rparr>\<rparr>"]
  show ?thesis
    by (auto simp: weather_request_count_def fetch_weather_for_geodataframe_def
        weather_queries_def length_sample_dates ymd2ord_examples)
qed

text \<open>
  C2, as the claim states it, fails on the notebook's own date range. From 2024-01-01 to
  2024-12-31 the end date is 365 days after the start date and the range has 366 days;
  the loop sends 53 requests for a region, and the claimed number is 54 for either way of
  counting the days of the range.
\<close>

theorem weather_requests_2024_counterexample:
  "weather_request_count (reply_with \<lparr>status_code = 200, body = Some (JObj [])\<rparr>)
     [(15 :: int, 30)] (ymd2ord 2024 1 1) (ymd2ord 2024 12 31) () = Some 53
   \<and> weather_request_count (reply_with \<lparr>status_code = 200, body = Some (JObj [])\<rparr>)
       [(15 :: int, 30)] (ymd2ord 2024 1 1) (ymd2ord 2024 12 31) ()
     \<noteq> Some (nat (\<lceil>real_of_int (ymd2ord 2024 12 31 - ymd2ord 2024 1 1) / 7\<rceil> + 1))
   \<and> weather_request_count (reply_with \<lparr>status_code = 200, body = Some (JObj [])\<rparr>)
       [(15 :: int, 30)] (ymd2ord 2024 1 1) (ymd2ord 2024 12 31) ()
     \<noteq> Some (nat (\<lceil>real_of_int (ymd2ord 2024 12 31 - ymd2ord 2024 1 1 + 1) / 7\<rceil> + 1))"
  unfolding weather_request_count_2024 by (simp add: ymd2ord_examples)

text \<open>
  C2, amended: take an inclusive date range of one year (the end date is 364 or 365 days
  after the start date) whose start date is a \<^verbatim>\<open>datetime\<close> and for which the date 371
  days after the start date, 7 days after the last sampled date, is one too (at most
  9999-12-31). When the weather endpoint keeps to its interface, the run ends without an
  exception and has sent, region after region, one request per sampled date, from the
  start date in steps of 7 days while the date is at most the end date. For each region
  that is 53 requests, which is \<open>(end - start) div 7 + 1\<close>: the quotient is rounded
  down, not up.
\<close>

theorem weather_requests_per_region:
  assumes "\<forall>q w. weather_response_ok (fst (http q w))"
    and "end_date - start_date = 364 \<or> end_date - start_date = 365"
    and "1 \<le> start_date"
    and "start_date + 371 \<le> MAXORDINAL"
  shows "\<exists>s'. fetch_weather_for_geodataframe http gdf start_date end_date w = Inr s'
          \<and> sent (weather_net s') =
              concat (map (\<lambda>row. weather_queries row start_date end_date) gdf)
          \<and> (\<forall>row \<in> set gdf.
                map param_date (weather_queries row start_date end_date)
                  = sample_dates start_date end_date
              \<and> length (weather_queries row start_date end_date) = 53
              \<and> length (weather_queries row start_date end_date)
                  = nat ((end_date - start_date) div 7 + 1))
          \<and> length (sent (weather_net s')) = length gdf * 53"
proof -
  from weather_rows_sent [OF assms(1,3) one_year_in_range [OF assms(2,4)], of gdf
      "\<lparr>weather_records = [], weather_out = [], weather_net = \<lparr>sent = [], world = w\<rparr>\<rparr>"]
  obtain s' where s': "fetch_weather_for_geodataframe http gdf start_date end_date w = Inr s'"
    "sent (weather_net s') = concat (map (\<lambda>row. weather_queries row start_date end_date) gdf)"
    unfolding fetch_weather_for_geodataframe_def by auto
  have le: "start_date \<le> end_date" using assms(2) by auto
  have n: "nat ((end_date - start_date) div 7 + 1) = 53" using assms(2) by auto
  have len: "\<forall>row \<in> set gdf. length (weather_queries row start_date end_date) = 53"
    using le n by (simp add: weather_queries_def length_sample_dates)
  have dates: "\<forall>row \<in> set gdf. map param_date (weather_queries row start_date end_date)
                  = sample_dates start_date end_date"
    by (simp add: weather_queries_def comp_def)
  from length_concat_const [OF len] s' len n dates show ?thesis by simp
qed

theorem weather_requests_per_region_witness:
  "(\<forall>q w. weather_response_ok
       (fst (reply_with \<lparr>status_code = 200, body = Some (JObj [])\<rparr>
              (q :: int weather_query) (w :: unit))))
   \<and> ((738885 :: int) - 738521 = 364 \<or> (738885 :: int) - 738521 = 365)
   \<and> (1 :: int) \<le> 738521
   \<and> 738521 + 371 \<le> MAXORDINAL
   \<and> weather_request_count (reply_with \<lparr>status_code = 200, body = Some (JObj [])\<rparr>)
       [(15 :: int, 30), (12, 25)] 738521 738885 () = Some 106"
  using weather_requests_per_region
    [of "reply_with \<lparr>status_code = 200, body = Some (JObj [])\<rparr>"
        738885 738521 "[(15 :: int, 30), (12, 25)]" "()"]
  by (auto simp: weather_request_count_def reply_with_def weather_response_ok_def MAXORDINAL_def)

text \<open>
  C4: the claim asks that every request with a status that is not 2xx is answered by a
  printed line and the next date, and that no exception leaves the loop. The function
  \<^verbatim>\<open>get_daily_weather\<close> reads the body of such a reply as JSON to find the message.
  In the first run below the first reply has status 200 and the second has status 502
  and a body that is not JSON; \<^verbatim>\<open>response.json()\<close> raises, the exception leaves the
  loop and the function, and the record collected from the first reply is lost with the
  list. In the second run every reply has status 401 and a JSON object with a message;
  for each of the three dates the line with the message is printed, no record is added,
  and the run ends without an exception.
\<close>

theorem weather_non_json_error_reply_raises:
  "fetch_weather_for_geodataframe
     (reply_in_turn \<lparr>status_code = 502, body = None\<rparr>) [(15 :: int, 30)] 738886 739251
     [\<lparr>status_code = 200, body = Some (JObj [(''date'', JStr ''2024-01-01'')])\<rparr>]
   = Inl JSONDecodeError
   \<and> fetch_weather_for_geodataframe
     (reply_with
        \<lparr>status_code = 401,
         body = Some (JObj [(''cod'', JNum 401), (''message'', JStr ''Invalid API key'')])\<rparr>)
     [(15 :: int, 30)] 738886 738900 ()
   = Inr \<lparr>weather_records = [],
          weather_out = [ErrorFetching 15 30 738886 (JStr ''Invalid API key''),
                         ErrorFetching 15 30 738893 (JStr ''Invalid API key''),
                         ErrorFetching 15 30 738900 (JStr ''Invalid API key'')],
          weather_net =
            \<lparr>sent = [\<lparr>param_lat = 15, param_lon = 30, param_date = 738886, param_tz = ''+02:00''\<rparr>,
                     \<lparr>param_lat = 15, param_lon = 30, param_date = 738893, param_tz = ''+02:00''\<rparr>,
                     \<lparr>param_lat = 15, param_lon = 30, param_date = 738900, param_tz = ''+02:00''\<rparr>],
             world = ()\<rparr>\<rparr>"
  by (simp add: fetch_weather_for_geodataframe_def weather_while.simps weather_body_def
      get_daily_weather_def requests_get_def reply_in_turn_def reply_with_def response_json_def
      add_days_def MAXORDINAL_def)

section \<open>Properties of the OpenStreetMap fetcher\<close>

text \<open>
  C5: the claim asks for an exception whenever the status is not 200. The function leaves
  that to \<^verbatim>\<open>raise_for_status\<close>, which raises for the statuses 400 to 599 only. For a
  response with status 204 nothing is raised: the function returns \<^verbatim>\<open>None\<close>, and the
  loop over the regions appends it as the region's data and goes on. For the status 404
  the function raises, and for the status 200 it returns the element list.
\<close>

theorem get_osm_data_status_204_returns_none:
  "get_osm_data_from_bbox (reply_with \<lparr>status_code = 204, body = None\<rparr>)
     [Finite 8, Finite 21, Finite 23, Finite (39 :: int)] \<lparr>sent = [], world = ()\<rparr>
   = Inr (None,
          \<lparr>sent = [WaysInBBox (Finite 8) (Finite 21) (Finite 23) (Finite 39)], world = ()\<rparr>)
   \<and> osm_loop (reply_with \<lparr>status_code = 204, body = None\<rparr>)
       [Polygon \<lparr>exterior = [(21, 8), (39, 8), (39, 23), (21, 8 :: int)], interiors = []\<rparr>]
       ([], \<lparr>sent = [], world = ()\<rparr>)
   = Inr ([None],
          \<lparr>sent = [WaysInBBox (Finite 8) (Finite 21) (Finite 23) (Finite 39)], world = ()\<rparr>)
   \<and> get_osm_data_from_bbox (reply_with \<lparr>status_code = 404, body = None\<rparr>)
       [Finite 8, Finite 21, Finite 23, Finite (39 :: int)] \<lparr>sent = [], world = ()\<rparr>
   = Inl (HTTPError 404)
   \<and> get_osm_data_from_bbox
       (reply_with \<lparr>status_code = 200,
                    body = Some (JObj [(''elements'', JArr [JObj [(''type'', JStr ''way'')]])])\<rparr>)
       [Finite 8, Finite 21, Finite 23, Finite (39 :: int)] \<lparr>sent = [], world = ()\<rparr>
   = Inr (Some (JArr [JObj [(''type'', JStr ''way'')]]),
          \<lparr>sent = [WaysInBBox (Finite 8) (Finite 21) (Finite 23) (Finite 39)], world = ()\<rparr>)"
  by (simp add: get_osm_data_from_bbox_def requests_get_def reply_with_def raise_for_status_def
      get_bbox_from_multipolygon_def bounds_def response_json_def)






















section \<open>Properties of the merge\<close>

lemma merge_left_set:
  "set (merge_left lk rk ls rs) =
     {(l, Some r) | l r. l \<in> set ls \<and> r \<in> set rs \<and> rk r = lk l}
     \<union> {(l, None) | l. l \<in> set ls \<and> (\<forall>r \<in> set rs. rk r \<noteq> lk l)}"
proof -
  have row: "set (case filter (\<lambda>r. rk r = lk l) rs of [] \<Rightarrow> [(l, None)]
                   | matches \<Rightarrow> map (\<lambda>r. (l, Some r)) matches)
             = {(l, Some r) | r. r \<in> set rs \<and> rk r = lk l}
               \<union> {(l, None) | x. x = l \<and> (\<forall>r \<in> set rs. rk r \<noteq> lk l)}" for l
  proof (cases "filter (\<lambda>r. rk r = lk l) rs")
    case Nil
    then have "\<forall>r \<in> set rs. rk r \<noteq> lk l" by (simp add: filter_empty_conv)
    with Nil show ?thesis by auto
  next
    case (Cons m ms)
    then have "m \<in> set (filter (\<lambda>r. rk r = lk l) rs)" by simp
    then have ex: "\<exists>r \<in> set rs. rk r = lk l" by auto
    have "set (map (\<lambda>r. (l, Some r)) (filter (\<lambda>r. rk r = lk l) rs))
          = {(l, Some r) | r. r \<in> set rs \<and> rk r = lk l}" by auto
    with Cons ex show ?thesis by auto
  qed
  show ?thesis
    unfolding merge_left_def set_concat set_map image_image row by blast
qed

text \<open>
  C8: in the merged table, a boundary row is joined to every weather row that has its
  coordinate, and then it does not appear with empty weather fields; a boundary row whose
  coordinate is in no weather row appears with empty weather fields, and only so.
\<close>

theorem merged_df_left_join:
  assumes "l \<in> set gdf"
  shows "(\<forall>r \<in> set weather_df. (latitude r, longitude r) = centroid_coordinates l
            \<longrightarrow> (l, Some r) \<in> set (merged_df centroid_coordinates gdf weather_df))
       \<and> ((\<exists>r \<in> set weather_df. (latitude r, longitude r) = centroid_coordinates l)
            \<longrightarrow> (l, None) \<notin> set (merged_df centroid_coordinates gdf weather_df))
       \<and> ((\<forall>r \<in> set weather_df. (latitude r, longitude r) \<noteq> centroid_coordinates l)
            \<longrightarrow> (l, None) \<in> set (merged_df centroid_coordinates gdf weather_df)
              \<and> (\<forall>r. (l, Some r) \<notin> set (merged_df centroid_coordinates gdf weather_df)))"
  using assms unfolding merged_df_def merge_left_set by auto

theorem merged_df_left_join_witness:
  "(''Khartoum'', (15 :: int, 32 :: int)) \<in> set [(''Khartoum'', (15, 32)), (''Kassala'', (16, 36))]
   \<and> (''Kassala'', (16 :: int, 36 :: int)) \<in> set [(''Khartoum'', (15, 32)), (''Kassala'', (16, 36))]
   \<and> merged_df snd [(''Khartoum'', (15 :: int, 32 :: int)), (''Kassala'', (16, 36))]
       [\<lparr>latitude = 15, longitude = 32, timezone = ''+02:00'', date = 738886, data = JNull\<rparr>]
     = [((''Khartoum'', (15, 32)),
         Some \<lparr>latitude = 15, longitude = 32, timezone = ''+02:00'', date = 738886,
               data = JNull\<rparr>),
        ((''Kassala'', (16, 36)), None)]"
  using merged_df_left_join
    [of "(''Khartoum'', (15 :: int, 32 :: int))" "[(''Khartoum'', (15, 32)), (''Kassala'', (16, 36))]"
        "[\<lparr>latitude = 15, longitude = 32, timezone = ''+02:00'', date = 738886, data = JNull\<rparr>]"
        snd]
    merged_df_left_join
    [of "(''Kassala'', (16 :: int, 36 :: int))" "[(''Khartoum'', (15, 32)), (''Kassala'', (16, 36))]"
        "[\<lparr>latitude = 15, longitude = 32, timezone = ''+02:00'', date = 738886, data = JNull\<rparr>]"
        snd]
  by (simp add: merged_df_def merge_left_def)

end
